theory Spec2Isabelle
  imports Complex_Main
begin

section \<open>Values of the language\<close>

subsection \<open>Strings\<close>

text \<open>
  A TypeScript string is a sequence of UTF-16 code units; a code unit is modelled by its
  number. \<open>js\<close> turns an ASCII literal into such a sequence.
\<close>

type_synonym js_string = "nat list"

definition js :: "string \<Rightarrow> js_string" where
  "js s = map of_char s"

text \<open>
  \<open>String.prototype.trim\<close> is a builtin of the language: it removes the leading and the
  trailing code units that are white space or line terminators (TAB, LF, VT, FF, CR,
  SPACE, NBSP, U+1680, U+2000 to U+200A, U+2028, U+2029, U+202F, U+205F, U+3000, U+FEFF).
\<close>

definition isWhiteSpace :: "nat \<Rightarrow> bool" where
  "isWhiteSpace c =
     (c \<in> {9, 10, 11, 12, 13, 32, 160, 5760, 8232, 8233, 8239, 8287, 12288, 65279}
      \<or> (8192 \<le> c \<and> c \<le> 8202))"

definition trim :: "js_string \<Rightarrow> js_string" where
  "trim s = rev (dropWhile isWhiteSpace (rev (dropWhile isWhiteSpace s)))"

subsection \<open>Numbers\<close>

text \<open>
  The type \<open>number\<close> of the language: an IEEE 754 double. NaN and the two infinities
  are kept apart; a finite number is the real it stands for, and the two zeros are one
  value (they compare equal and neither is below zero). The arithmetic below rounds
  every finite result to the nearest double.
\<close>

datatype number = NaN | NegInf | Fin real | PosInf

text \<open>The operator \<open><\<close>: false as soon as one side is NaN.\<close>

fun num_lt :: "number \<Rightarrow> number \<Rightarrow> bool" where
  "num_lt NaN _ = False"
| "num_lt _ NaN = False"
| "num_lt PosInf _ = False"
| "num_lt _ NegInf = False"
| "num_lt NegInf _ = True"
| "num_lt _ PosInf = True"
| "num_lt (Fin a) (Fin b) = (a < b)"

text \<open>The operators \<open>></\<close> and \<open>>=\<close>.\<close>

definition num_gt :: "number \<Rightarrow> number \<Rightarrow> bool" where
  "num_gt a b = num_lt b a"

definition num_ge :: "number \<Rightarrow> number \<Rightarrow> bool" where
  "num_ge a b = (a \<noteq> NaN \<and> b \<noteq> NaN \<and> \<not> num_lt a b)"

text \<open>
  Rounding a real to a double, to nearest with ties to even. A double is an integer of
  at most 53 bits times a power of two, the exponent being at least \<open>-1074\<close>;
  \<open>exponent a\<close> is the exponent of the doubles around \<open>a > 0\<close>, found from the number
  of bits of the integer part of \<open>a\<close>, or of \<open>1 / a\<close> when \<open>a < 1\<close>. A result of
  \<open>2 ^ 1024\<close> or more is an infinity.
\<close>

function bit_length :: "int \<Rightarrow> int" where
  "bit_length n = (if n \<le> 0 then 0 else 1 + bit_length (n div 2))"
  by auto
termination
  by (relation "measure nat") auto

definition pow2 :: "int \<Rightarrow> real" where
  "pow2 e = (if 0 \<le> e then 2 ^ nat e else 1 / 2 ^ nat (- e))"

definition round_half_even :: "real \<Rightarrow> int" where
  "round_half_even q =
     (let f = \<lfloor>q\<rfloor>; d = q - of_int f
      in if d < 1 / 2 then f else if 1 / 2 < d then f + 1 else if even f then f else f + 1)"

definition exponent :: "real \<Rightarrow> int" where
  "exponent a =
     (if 1 \<le> a then bit_length \<lfloor>a\<rfloor> - 53
      else max (- 1074) (- bit_length \<lfloor>1 / a\<rfloor> - 52))"

definition round_double :: "real \<Rightarrow> number" where
  "round_double x =
     (if x = 0 then Fin 0
      else
        let e = exponent \<bar>x\<bar>;
            n = round_half_even (\<bar>x\<bar> / pow2 e);
            y = of_int n * pow2 e
        in if 2 ^ 1024 \<le> y then (if x < 0 then NegInf else PosInf)
           else Fin (if x < 0 then - y else y))"

text \<open>
  The operator \<open>+\<close> on numbers: opposite infinities give NaN, and the sum of two finite
  numbers is rounded.
\<close>

fun num_add :: "number \<Rightarrow> number \<Rightarrow> number" where
  "num_add NaN _ = NaN"
| "num_add _ NaN = NaN"
| "num_add PosInf NegInf = NaN"
| "num_add NegInf PosInf = NaN"
| "num_add PosInf _ = PosInf"
| "num_add _ PosInf = PosInf"
| "num_add NegInf _ = NegInf"
| "num_add _ NegInf = NegInf"
| "num_add (Fin a) (Fin b) = round_double (a + b)"

text \<open>
  The operator \<open>*\<close>: an infinity times zero is NaN, otherwise the signs multiply, and
  the product of two finite numbers is rounded.
\<close>

fun num_mul :: "number \<Rightarrow> number \<Rightarrow> number" where
  "num_mul NaN _ = NaN"
| "num_mul _ NaN = NaN"
| "num_mul (Fin a) (Fin b) = round_double (a * b)"
| "num_mul (Fin a) y =
     (if a = 0 then NaN else if (0 < a) = (y = PosInf) then PosInf else NegInf)"
| "num_mul x (Fin b) =
     (if b = 0 then NaN else if (0 < b) = (x = PosInf) then PosInf else NegInf)"
| "num_mul x y = (if x = y then PosInf else NegInf)"

definition isNaN :: "number \<Rightarrow> bool" where
  "isNaN n = (n = NaN)"

definition isFinite :: "number \<Rightarrow> bool" where
  "isFinite n = (case n of Fin v \<Rightarrow> True | _ \<Rightarrow> False)"

subsection \<open>Dates\<close>

text \<open>
  A \<open>Date\<close> object holds a time value: the milliseconds since the epoch, or NaN for an
  invalid date. \<open>new Date(value)\<close> copies the time value of a \<open>Date\<close> and parses a
  string; the parser (\<open>Date.parse\<close>) is a builtin and is a parameter of the model.
\<close>

datatype Date = Date (getTime: number)

datatype value_arg = DateArg Date | StringArg js_string

fun Date_new :: "(js_string \<Rightarrow> number) \<Rightarrow> value_arg \<Rightarrow> Date" where
  "Date_new parse (DateArg d) = Date (getTime d)"
| "Date_new parse (StringArg s) = Date (parse s)"

text \<open>
  The condition \<open>if (value)\<close>: an object is truthy, a string is truthy unless it is
  empty.
\<close>

fun truthy :: "value_arg \<Rightarrow> bool" where
  "truthy (DateArg d) = True"
| "truthy (StringArg s) = (s \<noteq> [])"

section \<open>Errors\<close>

text \<open>
  Every \<open>throw new Error(...)\<close> of the code is a value \<open>Error msg\<close>. The message of a
  template literal is kept as its parts: the literal chunks and the interpolated values
  (how a number or a date is printed is not modelled). The specification names this kind
  of error ValidationError; the code has the one class \<open>Error\<close>. \<open>TypeError\<close> is what
  reading a field through a reference of the wrong class gives; the types of the code
  exclude it.
\<close>

datatype part = Lit string | Txt js_string | Num number | Val value_arg

datatype error = Error "part list" | TypeError

section \<open>Objects and the store\<close>

text \<open>
  Objects live in a store and are known by their address. \<open>new\<close> takes the next free
  address; nothing is ever removed.
\<close>

type_synonym ref = nat

record Currency =
  field_code :: js_string

record Money =
  field_amount :: number
  field_currency :: ref

record Customer =
  field_id :: js_string
  field_name :: js_string
  field_lastOrderPrice :: "ref option"

datatype obj = OCurrency Currency | OMoney Money | OCustomer Customer

type_synonym heap = "obj list"

type_synonym 'a result = "(error + 'a) \<times> heap"

definition lookup :: "heap \<Rightarrow> ref \<Rightarrow> obj option" where
  "lookup h r = (if r < length h then Some (h ! r) else None)"

definition alloc :: "heap \<Rightarrow> obj \<Rightarrow> ref result" where
  "alloc h v = (Inr (length h), h @ [v])"

definition is_Currency :: "heap \<Rightarrow> ref \<Rightarrow> bool" where
  "is_Currency h r = (case lookup h r of Some (OCurrency c) \<Rightarrow> True | _ \<Rightarrow> False)"

definition is_Money :: "heap \<Rightarrow> ref \<Rightarrow> bool" where
  "is_Money h r = (case lookup h r of Some (OMoney m) \<Rightarrow> True | _ \<Rightarrow> False)"

definition is_Customer :: "heap \<Rightarrow> ref \<Rightarrow> bool" where
  "is_Customer h r = (case lookup h r of Some (OCustomer c) \<Rightarrow> True | _ \<Rightarrow> False)"

text \<open>Sequencing: an error of the first step ends the call and leaves the store as it is.\<close>

definition attempt :: "error + 'a \<Rightarrow> heap \<Rightarrow> ('a \<Rightarrow> 'b result) \<Rightarrow> 'b result" where
  "attempt x h k = (case x of Inl e \<Rightarrow> (Inl e, h) | Inr v \<Rightarrow> k v)"

section \<open>Currency\<close>

text \<open>
  The type \<open>CurrencyCode\<close> of the code: three letters, each one of the twenty-six of
  \<open>UpperCaseLetter\<close>. It is a type of the compiler only and leaves nothing at run time.
\<close>

definition UpperCaseLetter :: "nat \<Rightarrow> bool" where
  "UpperCaseLetter c = (c \<in> set (js ''ABCDEFGHIJKLMNOPQRSTUVWXYZ''))"

definition CurrencyCode :: "js_string \<Rightarrow> bool" where
  "CurrencyCode s = (length s = 3 \<and> list_all UpperCaseLetter s)"

text \<open>The constructor stores its argument.\<close>

definition Currency_new :: "heap \<Rightarrow> js_string \<Rightarrow> ref result" where
  "Currency_new h code = alloc h (OCurrency \<lparr>field_code = code\<rparr>)"

definition Currency_code :: "heap \<Rightarrow> ref \<Rightarrow> error + js_string" where
  "Currency_code h this =
     (case lookup h this of Some (OCurrency c) \<Rightarrow> Inr (field_code c) | _ \<Rightarrow> Inl TypeError)"

section \<open>Money\<close>

definition Money_new :: "heap \<Rightarrow> number \<Rightarrow> ref \<Rightarrow> ref result" where
  "Money_new h amount currency =
     (if num_lt amount (Fin 0)
      then (Inl (Error [Lit ''Amount cannot be negative: '', Num amount]), h)
      else alloc h (OMoney \<lparr>field_amount = amount, field_currency = currency\<rparr>))"

definition Money_amount :: "heap \<Rightarrow> ref \<Rightarrow> error + number" where
  "Money_amount h this =
     (case lookup h this of Some (OMoney m) \<Rightarrow> Inr (field_amount m) | _ \<Rightarrow> Inl TypeError)"

definition Money_currency :: "heap \<Rightarrow> ref \<Rightarrow> error + ref" where
  "Money_currency h this =
     (case lookup h this of Some (OMoney m) \<Rightarrow> Inr (field_currency m) | _ \<Rightarrow> Inl TypeError)"

text \<open>
  \<open>add\<close> reads the code of both currencies, compares them with \<open>!==\<close>, and builds the
  sum with the constructor, so the constructor's guard runs on the sum.
\<close>

definition Money_add :: "heap \<Rightarrow> ref \<Rightarrow> ref \<Rightarrow> ref result" where
  "Money_add h this other =
     attempt (Money_currency h this) h (\<lambda>this_currency.
     attempt (Currency_code h this_currency) h (\<lambda>this_code.
     attempt (Money_currency h other) h (\<lambda>other_currency.
     attempt (Currency_code h other_currency) h (\<lambda>other_code.
       if this_code \<noteq> other_code
       then (Inl (Error [Lit ''Cannot add amounts with different currencies: '',
                         Txt this_code, Lit '' and '', Txt other_code]), h)
       else
         attempt (Money_amount h this) h (\<lambda>this_amount.
         attempt (Money_amount h other) h (\<lambda>other_amount.
           Money_new h (num_add this_amount other_amount) this_currency))))))"

definition Money_multiply :: "heap \<Rightarrow> ref \<Rightarrow> number \<Rightarrow> ref result" where
  "Money_multiply h this factor =
     (if num_lt factor (Fin 0)
      then (Inl (Error [Lit ''Factor cannot be negative: '', Num factor]), h)
      else
        attempt (Money_amount h this) h (\<lambda>this_amount.
        attempt (Money_currency h this) h (\<lambda>this_currency.
          Money_new h (num_mul this_amount factor) this_currency)))"

section \<open>Customer\<close>

text \<open>
  The identifier comes from \<open>crypto.randomUUID()\<close>; the value it returns is the
  parameter \<open>uuid\<close>. For a string, \<open>!name\<close> holds exactly when it is empty.
\<close>

definition Customer_new :: "heap \<Rightarrow> js_string \<Rightarrow> js_string \<Rightarrow> ref result" where
  "Customer_new h uuid name =
     (if name = [] \<or> length (trim name) = 0
      then (Inl (Error [Lit ''Name cannot be empty'']), h)
      else alloc h (OCustomer
             \<lparr>field_id = uuid, field_name = name, field_lastOrderPrice = None\<rparr>))"

definition Customer_id :: "heap \<Rightarrow> ref \<Rightarrow> error + js_string" where
  "Customer_id h this =
     (case lookup h this of Some (OCustomer c) \<Rightarrow> Inr (field_id c) | _ \<Rightarrow> Inl TypeError)"

definition Customer_name :: "heap \<Rightarrow> ref \<Rightarrow> error + js_string" where
  "Customer_name h this =
     (case lookup h this of Some (OCustomer c) \<Rightarrow> Inr (field_name c) | _ \<Rightarrow> Inl TypeError)"

text \<open>The getter of \<open>lastOrderPrice\<close>: \<open>None\<close> is \<open>null\<close>.\<close>

definition Customer_lastOrderPrice :: "heap \<Rightarrow> ref \<Rightarrow> error + ref option" where
  "Customer_lastOrderPrice h this =
     (case lookup h this of
        Some (OCustomer c) \<Rightarrow> Inr (field_lastOrderPrice c)
      | _ \<Rightarrow> Inl TypeError)"

text \<open>The setter of \<open>lastOrderPrice\<close>: the one assignment to a field after construction.\<close>

definition Customer_set_lastOrderPrice :: "heap \<Rightarrow> ref \<Rightarrow> ref \<Rightarrow> unit result" where
  "Customer_set_lastOrderPrice h this v =
     (case lookup h this of
        Some (OCustomer c) \<Rightarrow>
          (Inr (), h[this := OCustomer (c\<lparr>field_lastOrderPrice := Some v\<rparr>)])
      | _ \<Rightarrow> (Inl TypeError, h))"

section \<open>DateTime\<close>

text \<open>
  \<open>clock\<close> is what the wall clock reads when the constructor runs (\<open>new Date()\<close>), in
  milliseconds; \<open>parse\<close> is the parser of date strings.
\<close>

record DateTime =
  field_date :: Date

definition DateTime_new ::
    "(js_string \<Rightarrow> number) \<Rightarrow> real \<Rightarrow> value_arg option \<Rightarrow> error + DateTime" where
  "DateTime_new parse clock v =
     (let now = Date (Fin clock) in
      case v of
        None \<Rightarrow> Inr \<lparr>field_date = now\<rparr>
      | Some x \<Rightarrow>
          if truthy x then
            (let parsedDate = Date_new parse x in
             if isNaN (getTime parsedDate)
             then Inl (Error [Lit ''Invalid date format: '', Val x, Lit ''.''])
             else if num_gt (getTime parsedDate) (getTime now)
             then Inl (Error [Lit ''Date cannot be in the future: '', Val x, Lit ''.''])
             else Inr \<lparr>field_date = parsedDate\<rparr>)
          else Inr \<lparr>field_date = now\<rparr>)"

section \<open>Programs over the store\<close>

text \<open>
  What a caller can do with the three classes: construct, add, multiply, assign the last
  order price. A call runs only when the references it passes are of the declared
  classes (the compiler refuses the others); \<open>run\<close> is the store after a sequence of
  calls.
\<close>

datatype call =
    NewCurrency js_string
  | NewMoney number ref
  | Add ref ref
  | Multiply ref number
  | NewCustomer js_string js_string
  | SetLastOrderPrice ref ref

fun exec :: "heap \<Rightarrow> call \<Rightarrow> heap" where
  "exec h (NewCurrency code) = snd (Currency_new h code)"
| "exec h (NewMoney a c) = (if is_Currency h c then snd (Money_new h a c) else h)"
| "exec h (Add x y) = (if is_Money h x \<and> is_Money h y then snd (Money_add h x y) else h)"
| "exec h (Multiply x f) = (if is_Money h x then snd (Money_multiply h x f) else h)"
| "exec h (NewCustomer uuid name) = snd (Customer_new h uuid name)"
| "exec h (SetLastOrderPrice c v) =
     (if is_Customer h c \<and> is_Money h v then snd (Customer_set_lastOrderPrice h c v) else h)"

definition run :: "heap \<Rightarrow> call list \<Rightarrow> heap" where
  "run h cs = foldl exec h cs"

text \<open>
  The state of the store that the calls keep: every Money holds a reference to a Currency
  and an amount that passed the constructor's guard.
\<close>

definition obj_ok :: "heap \<Rightarrow> obj \<Rightarrow> bool" where
  "obj_ok h v =
     (case v of
        OMoney m \<Rightarrow> \<not> num_lt (field_amount m) (Fin 0) \<and> is_Currency h (field_currency m)
      | _ \<Rightarrow> True)"

definition heap_inv :: "heap \<Rightarrow> bool" where
  "heap_inv h = list_all (obj_ok h) h"

section \<open>Facts about the store and the numbers\<close>

lemma lookup_append:
  "lookup (h @ [v]) r = (if r < length h then lookup h r else if r = length h then Some v else None)"
  by (simp add: lookup_def nth_append)

lemma lookup_SomeD: "lookup h p = Some v \<Longrightarrow> p < length h \<and> h ! p = v"
  by (simp add: lookup_def split: if_splits)

lemma lookup_alloc_old: "lookup h p = Some v \<Longrightarrow> lookup (h @ [w]) p = Some v"
  by (auto simp: lookup_append dest: lookup_SomeD)

lemma pow2_positive: "0 < pow2 e"
  by (simp add: pow2_def)

lemma round_half_even_not_negative: "0 \<le> q \<Longrightarrow> 0 \<le> round_half_even q"
  by (simp add: round_half_even_def Let_def)

lemma round_double_not_negative: "0 \<le> x \<Longrightarrow> \<not> num_lt (round_double x) (Fin 0)"
proof -
  assume x: "0 \<le> x"
  have "0 \<le> \<bar>x\<bar> / pow2 e" for e
    using pow2_positive [of e] by simp
  then have "0 \<le> round_half_even (\<bar>x\<bar> / pow2 e)" for e
    by (rule round_half_even_not_negative)
  then have "0 \<le> of_int (round_half_even (\<bar>x\<bar> / pow2 e)) * pow2 e" for e
    using pow2_positive [of e] by simp
  with x show ?thesis
    by (simp add: round_double_def Let_def not_less)
qed

lemma num_add_not_negative:
  "\<not> num_lt a (Fin 0) \<Longrightarrow> \<not> num_lt b (Fin 0) \<Longrightarrow> \<not> num_lt (num_add a b) (Fin 0)"
  by (cases a; cases b) (auto simp: not_less round_double_not_negative)

lemma num_mul_not_negative:
  "\<not> num_lt a (Fin 0) \<Longrightarrow> \<not> num_lt b (Fin 0) \<Longrightarrow> \<not> num_lt (num_mul a b) (Fin 0)"
  by (cases a; cases b) (auto simp: not_less round_double_not_negative)

lemma round_double_150: "round_double 150 = Fin 150"
  by (simp add: round_double_def exponent_def round_half_even_def pow2_def Let_def)

text \<open>
  The sum is rounded: \<open>2 ^ 53 + 1\<close> is not a double, and the tie goes to the even
  neighbour.
\<close>

lemma num_add_rounds: "num_add (Fin (2 ^ 53)) (Fin 1) = Fin (2 ^ 53)"
  by (simp add: round_double_def exponent_def round_half_even_def pow2_def Let_def)

lemma is_MoneyE:
  assumes "is_Money h x"
  obtains m where "lookup h x = Some (OMoney m)"
  using assms by (auto simp: is_Money_def split: option.splits obj.splits)

lemma is_CurrencyE:
  assumes "is_Currency h x"
  obtains c where "lookup h x = Some (OCurrency c)"
  using assms by (auto simp: is_Currency_def split: option.splits obj.splits)

lemma heap_inv_Money:
  assumes "heap_inv h" and "lookup h x = Some (OMoney m)"
  shows "\<not> num_lt (field_amount m) (Fin 0)" and "is_Currency h (field_currency m)"
proof -
  from assms(2) have "x < length h" and "h ! x = OMoney m"
    by (auto dest: lookup_SomeD)
  then have "OMoney m \<in> set h"
    by (metis nth_mem)
  with assms(1) have "obj_ok h (OMoney m)"
    by (simp add: heap_inv_def list_all_iff)
  then show "\<not> num_lt (field_amount m) (Fin 0)" and "is_Currency h (field_currency m)"
    by (simp_all add: obj_ok_def)
qed

lemma Money_new_ok:
  "\<not> num_lt a (Fin 0) \<Longrightarrow>
     Money_new h a c = (Inr (length h), h @ [OMoney \<lparr>field_amount = a, field_currency = c\<rparr>])"
  by (simp add: Money_new_def alloc_def)

lemma Money_add_eval:
  assumes "lookup h x = Some (OMoney mx)" and "lookup h y = Some (OMoney my)"
    and "lookup h (field_currency mx) = Some (OCurrency cx)"
    and "lookup h (field_currency my) = Some (OCurrency cy)"
  shows "Money_add h x y =
     (if field_code cx \<noteq> field_code cy
      then (Inl (Error [Lit ''Cannot add amounts with different currencies: '',
                        Txt (field_code cx), Lit '' and '', Txt (field_code cy)]), h)
      else Money_new h (num_add (field_amount mx) (field_amount my)) (field_currency mx))"
  using assms
  by (simp add: Money_add_def attempt_def Money_currency_def Currency_code_def Money_amount_def)

lemma Money_multiply_eval:
  assumes "lookup h x = Some (OMoney mx)"
  shows "Money_multiply h x f =
     (if num_lt f (Fin 0)
      then (Inl (Error [Lit ''Factor cannot be negative: '', Num f]), h)
      else Money_new h (num_mul (field_amount mx) f) (field_currency mx))"
  using assms
  by (simp add: Money_multiply_def attempt_def Money_currency_def Money_amount_def)

lemma lookup_length: "lookup h (length h) = None"
  by (simp add: lookup_def)

subsection \<open>The calls keep the state of the store\<close>

lemma is_Currency_alloc: "is_Currency h c \<Longrightarrow> is_Currency (h @ [v]) c"
  by (auto simp: is_Currency_def lookup_append split: option.splits obj.splits dest: lookup_SomeD)

lemma obj_ok_alloc: "obj_ok h v \<Longrightarrow> obj_ok (h @ [w]) v"
  by (auto simp: obj_ok_def is_Currency_alloc split: obj.splits)

lemma heap_inv_alloc: "heap_inv h \<Longrightarrow> obj_ok (h @ [v]) v \<Longrightarrow> heap_inv (h @ [v])"
  by (simp add: heap_inv_def list_all_iff obj_ok_alloc)

lemma heap_inv_Currency_new: "heap_inv h \<Longrightarrow> heap_inv (snd (Currency_new h code))"
  by (simp add: Currency_new_def alloc_def heap_inv_alloc obj_ok_def)

lemma heap_inv_Money_new:
  "heap_inv h \<Longrightarrow> is_Currency h c \<Longrightarrow> heap_inv (snd (Money_new h a c))"
  by (simp add: Money_new_def alloc_def heap_inv_alloc obj_ok_def is_Currency_alloc)

lemma heap_inv_Money_add:
  assumes inv: "heap_inv h" and x: "is_Money h x" and y: "is_Money h y"
  shows "heap_inv (snd (Money_add h x y))"
proof -
  from x obtain mx where mx: "lookup h x = Some (OMoney mx)" by (rule is_MoneyE)
  from y obtain my where my: "lookup h y = Some (OMoney my)" by (rule is_MoneyE)
  from heap_inv_Money [OF inv mx] obtain cx
    where cx: "lookup h (field_currency mx) = Some (OCurrency cx)"
      and tx: "is_Currency h (field_currency mx)"
    by (auto elim: is_CurrencyE)
  from heap_inv_Money [OF inv my] obtain cy
    where cy: "lookup h (field_currency my) = Some (OCurrency cy)"
    by (auto elim: is_CurrencyE)
  show ?thesis
    using inv tx by (simp add: Money_add_eval [OF mx my cx cy] heap_inv_Money_new)
qed

lemma heap_inv_Money_multiply:
  assumes inv: "heap_inv h" and x: "is_Money h x"
  shows "heap_inv (snd (Money_multiply h x f))"
proof -
  from x obtain mx where mx: "lookup h x = Some (OMoney mx)" by (rule is_MoneyE)
  from heap_inv_Money [OF inv mx] have "is_Currency h (field_currency mx)"
    by simp
  with inv show ?thesis
    by (simp add: Money_multiply_eval [OF mx] heap_inv_Money_new)
qed

lemma heap_inv_Customer_new: "heap_inv h \<Longrightarrow> heap_inv (snd (Customer_new h uuid name))"
  by (simp add: Customer_new_def alloc_def heap_inv_alloc obj_ok_def)

lemma lookup_update:
  "lookup (h[c := v]) p = (if p = c \<and> c < length h then Some v else lookup h p)"
  by (simp add: lookup_def)

lemma heap_inv_Customer_set:
  assumes inv: "heap_inv h"
  shows "heap_inv (snd (Customer_set_lastOrderPrice h c v))"
proof (cases "\<exists>cu. lookup h c = Some (OCustomer cu)")
  case False
  with inv show ?thesis
    by (auto simp: Customer_set_lastOrderPrice_def split: option.splits obj.splits)
next
  case True
  then obtain cu where cu: "lookup h c = Some (OCustomer cu)"
    by blast
  let ?new = "OCustomer (cu\<lparr>field_lastOrderPrice := Some v\<rparr>)"
  have same: "is_Currency (h[c := ?new]) r = is_Currency h r" for r
    using cu by (simp add: is_Currency_def lookup_update)
  have ok: "obj_ok (h[c := ?new]) w = obj_ok h w" for w
    by (simp add: obj_ok_def same split: obj.splits)
  have "set (h[c := ?new]) \<subseteq> insert ?new (set h)"
    by (rule set_update_subset_insert)
  moreover have "obj_ok h ?new"
    by (simp add: obj_ok_def)
  ultimately have "heap_inv (h[c := ?new])"
    using inv by (auto simp: heap_inv_def list_all_iff ok)
  with cu show ?thesis
    by (simp add: Customer_set_lastOrderPrice_def)
qed

lemma heap_inv_exec: "heap_inv h \<Longrightarrow> heap_inv (exec h c)"
  by (cases c)
     (simp_all add: heap_inv_Currency_new heap_inv_Money_new heap_inv_Money_add
        heap_inv_Money_multiply heap_inv_Customer_new heap_inv_Customer_set)

lemma heap_inv_run: "heap_inv h \<Longrightarrow> heap_inv (run h cs)"
  unfolding run_def by (induction cs arbitrary: h) (simp_all add: heap_inv_exec)

lemma heap_inv_empty: "heap_inv []"
  by (simp add: heap_inv_def)

subsection \<open>What a call on a Money does to the store\<close>

lemma Money_new_shape:
  "(\<exists>e. Money_new h a c = (Inl e, h))
   \<or> (\<exists>m. Money_new h a c = (Inr (length h), h @ [OMoney m]))"
  by (simp add: Money_new_def alloc_def)

lemma Money_add_shape:
  "(\<exists>e. Money_add h x y = (Inl e, h))
   \<or> (\<exists>m. Money_add h x y = (Inr (length h), h @ [OMoney m]) \<and> is_Money h x)"
proof (cases "is_Money h x")
  case False
  then have "Money_currency h x = Inl TypeError"
    by (auto simp: Money_currency_def is_Money_def split: option.splits obj.splits)
  then show ?thesis
    by (simp add: Money_add_def attempt_def)
next
  case True
  then show ?thesis
    using Money_new_shape [of h _ _]
    by (auto simp: Money_add_def attempt_def split: sum.splits)
qed

lemma Money_multiply_shape:
  "(\<exists>e. Money_multiply h x f = (Inl e, h))
   \<or> (\<exists>m. Money_multiply h x f = (Inr (length h), h @ [OMoney m]) \<and> is_Money h x)"
proof (cases "is_Money h x")
  case False
  then have "Money_amount h x = Inl TypeError"
    by (auto simp: Money_amount_def is_Money_def split: option.splits obj.splits)
  then show ?thesis
    by (simp add: Money_multiply_def attempt_def)
next
  case True
  then show ?thesis
    using Money_new_shape [of h _ _]
    by (auto simp: Money_multiply_def attempt_def split: sum.splits)
qed

lemma alloc_frame:
  assumes "is_Money h x"
  shows "Money_amount (h @ [v]) x = Money_amount h x"
    and "Money_currency (h @ [v]) x = Money_currency h x"
  using assms
  by (auto simp: Money_amount_def Money_currency_def is_Money_def lookup_append
      split: option.splits obj.splits dest: lookup_SomeD)

lemma is_Money_alloc_new: "is_Money (h @ [OMoney m]) (length h)"
  by (simp add: is_Money_def lookup_append)

lemma Money_add_returns:
  assumes inv: "heap_inv h" and x: "is_Money h x" and y: "is_Money h y"
    and cx: "Money_currency h x = Inr cx" and cy: "Money_currency h y = Inr cy"
    and kx: "Currency_code h cx = Inr k" and ky: "Currency_code h cy = Inr k"
  shows "fst (Money_add h x y) = Inr (length h)"
proof -
  from x obtain mx where mx: "lookup h x = Some (OMoney mx)" by (rule is_MoneyE)
  from y obtain my where my: "lookup h y = Some (OMoney my)" by (rule is_MoneyE)
  from heap_inv_Money [OF inv mx] obtain ux
    where ux: "lookup h (field_currency mx) = Some (OCurrency ux)"
      and ax: "\<not> num_lt (field_amount mx) (Fin 0)"
    by (auto elim: is_CurrencyE)
  from heap_inv_Money [OF inv my] obtain uy
    where uy: "lookup h (field_currency my) = Some (OCurrency uy)"
      and ay: "\<not> num_lt (field_amount my) (Fin 0)"
    by (auto elim: is_CurrencyE)
  from cx mx have "cx = field_currency mx"
    by (simp add: Money_currency_def)
  with kx ux have codex: "field_code ux = k"
    by (simp add: Currency_code_def)
  from cy my have "cy = field_currency my"
    by (simp add: Money_currency_def)
  with ky uy have codey: "field_code uy = k"
    by (simp add: Currency_code_def)
  have "\<not> num_lt (num_add (field_amount mx) (field_amount my)) (Fin 0)"
    using ax ay by (rule num_add_not_negative)
  then show ?thesis
    by (simp add: Money_add_eval [OF mx my ux uy] codex codey Money_new_ok)
qed

lemma Money_multiply_returns:
  assumes inv: "heap_inv h" and x: "is_Money h x" and f: "\<not> num_lt f (Fin 0)"
  shows "fst (Money_multiply h x f) = Inr (length h)"
proof -
  from x obtain mx where mx: "lookup h x = Some (OMoney mx)" by (rule is_MoneyE)
  from heap_inv_Money [OF inv mx] have "\<not> num_lt (field_amount mx) (Fin 0)"
    by simp
  then have "\<not> num_lt (num_mul (field_amount mx) f) (Fin 0)"
    using f by (rule num_mul_not_negative)
  with f show ?thesis
    by (simp add: Money_multiply_eval [OF mx] Money_new_ok)
qed

subsection \<open>Trimming, and what a call leaves alone\<close>

lemma trim_Nil_iff: "trim s = [] \<longleftrightarrow> (\<forall>c\<in>set s. isWhiteSpace c)"
proof
  assume "trim s = []"
  then have all: "\<forall>c\<in>set (dropWhile isWhiteSpace s). isWhiteSpace c"
    by (simp add: trim_def)
  have "dropWhile isWhiteSpace s = []"
  proof (rule ccontr)
    assume ne: "dropWhile isWhiteSpace s \<noteq> []"
    then have "\<not> isWhiteSpace (hd (dropWhile isWhiteSpace s))"
      by (rule hd_dropWhile)
    moreover from ne have "hd (dropWhile isWhiteSpace s) \<in> set (dropWhile isWhiteSpace s)"
      by (rule hd_in_set)
    ultimately show False
      using all by blast
  qed
  then show "\<forall>c\<in>set s. isWhiteSpace c"
    by simp
next
  assume "\<forall>c\<in>set s. isWhiteSpace c"
  then have blank: "dropWhile isWhiteSpace s = []"
    by simp
  show "trim s = []"
    unfolding trim_def blank by simp
qed

lemma Customer_new_shape:
  "(\<exists>e. Customer_new h uuid name = (Inl e, h))
   \<or> (\<exists>cu. Customer_new h uuid name = (Inr (length h), h @ [OCustomer cu]))"
  by (simp add: Customer_new_def alloc_def)

lemma exec_frame:
  assumes "lookup h p = Some v" and "\<forall>w. c \<noteq> SetLastOrderPrice p w"
  shows "lookup (exec h c) p = Some v"
proof (cases c)
  case (NewCurrency code)
  with assms show ?thesis
    by (simp add: Currency_new_def alloc_def lookup_alloc_old)
next
  case (NewMoney a cur)
  with assms show ?thesis
    using Money_new_shape [of h a cur] by (auto simp: lookup_alloc_old)
next
  case (Add x y)
  with assms show ?thesis
    using Money_add_shape [of h x y] by (auto simp: lookup_alloc_old)
next
  case (Multiply x f)
  with assms show ?thesis
    using Money_multiply_shape [of h x f] by (auto simp: lookup_alloc_old)
next
  case (NewCustomer uuid name)
  with assms show ?thesis
    using Customer_new_shape [of h uuid name] by (auto simp: lookup_alloc_old)
next
  case (SetLastOrderPrice cu w)
  with assms have "cu \<noteq> p"
    by simp
  with assms SetLastOrderPrice show ?thesis
    by (auto simp: Customer_set_lastOrderPrice_def lookup_update split: option.splits obj.splits)
qed

lemma run_frame:
  "lookup h p = Some v \<Longrightarrow> \<forall>w. SetLastOrderPrice p w \<notin> set cs \<Longrightarrow> lookup (run h cs) p = Some v"
proof (induction cs arbitrary: h)
  case Nil
  then show ?case by (simp add: run_def)
next
  case (Cons c cs)
  from Cons.prems have "lookup (exec h c) p = Some v"
    by (intro exec_frame) auto
  moreover from Cons.prems have "\<forall>w. SetLastOrderPrice p w \<notin> set cs"
    by simp
  ultimately have "lookup (run (exec h c) cs) p = Some v"
    by (rule Cons.IH)
  then show ?case
    by (simp add: run_def)
qed

section \<open>Currency: construction\<close>

text \<open>
  Claim C1, as the code has it. The constructor of Currency checks nothing at run time:
  for every string \<open>c\<close>, whether or not it is a \<open>CurrencyCode\<close>, construction
  succeeds with a new object (an address not in use before), and \<open>code\<close> of the new
  Currency returns \<open>c\<close>. In particular this holds for every code of three uppercase
  letters.
\<close>

theorem Currency_new_code:
  "fst (Currency_new h c) = Inr (length h)
   \<and> lookup h (length h) = None
   \<and> Currency_code (snd (Currency_new h c)) (length h) = Inr c"
  by (simp add: Currency_new_def alloc_def Currency_code_def lookup_def)

text \<open>
  Claim C1 as stated asks that a string that is not three uppercase letters makes the
  construction fail. The string \<open>usd\<close> is not a \<open>CurrencyCode\<close>, and the constructor
  returns a Currency for it.
\<close>

theorem Currency_new_unvalidated:
  "\<not> CurrencyCode (js ''usd'')
   \<and> Currency_new [] (js ''usd'') = (Inr 0, [OCurrency \<lparr>field_code = js ''usd''\<rparr>])"
  by (simp add: CurrencyCode_def UpperCaseLetter_def js_def Currency_new_def alloc_def)

section \<open>Money: construction\<close>

text \<open>
  Claim C4. Constructing a Money with amount \<open>a\<close> fails exactly when \<open>a < 0\<close>, and then
  with the error whose message is \<open>Amount cannot be negative: \<close> followed by the amount,
  the store being left as it was. For every \<open>a \<ge> 0\<close> and every currency reference the
  construction succeeds with a new object whose amount is \<open>a\<close> and whose currency is
  the reference given.
\<close>

theorem Money_new_spec:
  "(isl (fst (Money_new h a c)) \<longleftrightarrow> num_lt a (Fin 0))
   \<and> (num_lt a (Fin 0) \<longrightarrow>
        Money_new h a c = (Inl (Error [Lit ''Amount cannot be negative: '', Num a]), h))
   \<and> (num_ge a (Fin 0) \<longrightarrow>
        (\<exists>r h'. Money_new h a c = (Inr r, h') \<and> lookup h r = None
           \<and> Money_amount h' r = Inr a \<and> Money_currency h' r = Inr c))"
  by (simp add: Money_new_def alloc_def Money_amount_def Money_currency_def lookup_def
      num_ge_def)

theorem Money_new_spec_witness:
  "num_lt (Fin (- 1)) (Fin 0)
   \<and> Money_new [OCurrency \<lparr>field_code = js ''USD''\<rparr>] (Fin (- 1)) 0
       = (Inl (Error [Lit ''Amount cannot be negative: '', Num (Fin (- 1))]),
          [OCurrency \<lparr>field_code = js ''USD''\<rparr>])
   \<and> num_ge (Fin 5) (Fin 0)
   \<and> (\<exists>r h'. Money_new [OCurrency \<lparr>field_code = js ''USD''\<rparr>] (Fin 5) 0 = (Inr r, h')
         \<and> Money_amount h' r = Inr (Fin 5) \<and> Money_currency h' r = Inr 0)"
  using Money_new_spec [of "[OCurrency \<lparr>field_code = js ''USD''\<rparr>]" "Fin (- 1)" 0]
        Money_new_spec [of "[OCurrency \<lparr>field_code = js ''USD''\<rparr>]" "Fin 5" 0]
  by (auto simp: num_ge_def)

section \<open>Money: addition\<close>

text \<open>
  Claim C2. Let \<open>x\<close> and \<open>y\<close> be Money values of a store that the calls can build.
  Then \<open>x.add(y)\<close> fails exactly when the codes of the two currencies differ (with the
  error \<open>Cannot add amounts with different currencies\<close> naming both codes, the store
  unchanged); when the codes are equal it returns a new Money whose amount is the sum of
  the two amounts and whose currency is the reference that \<open>x\<close> holds.
\<close>

theorem Money_add_spec:
  assumes inv: "heap_inv h" and x: "is_Money h x" and y: "is_Money h y"
  shows "\<exists>ax ay cx cy kx ky.
      Money_amount h x = Inr ax \<and> Money_amount h y = Inr ay
    \<and> Money_currency h x = Inr cx \<and> Money_currency h y = Inr cy
    \<and> Currency_code h cx = Inr kx \<and> Currency_code h cy = Inr ky
    \<and> (isl (fst (Money_add h x y)) \<longleftrightarrow> kx \<noteq> ky)
    \<and> (kx \<noteq> ky \<longrightarrow>
         Money_add h x y =
           (Inl (Error [Lit ''Cannot add amounts with different currencies: '',
                        Txt kx, Lit '' and '', Txt ky]), h))
    \<and> (kx = ky \<longrightarrow>
         (\<exists>r h'. Money_add h x y = (Inr r, h') \<and> lookup h r = None
            \<and> Money_amount h' r = Inr (num_add ax ay) \<and> Money_currency h' r = Inr cx))"
proof -
  from x obtain mx where mx: "lookup h x = Some (OMoney mx)" by (rule is_MoneyE)
  from y obtain my where my: "lookup h y = Some (OMoney my)" by (rule is_MoneyE)
  from heap_inv_Money [OF inv mx] obtain cx
    where cx: "lookup h (field_currency mx) = Some (OCurrency cx)"
      and ax: "\<not> num_lt (field_amount mx) (Fin 0)"
    by (auto elim: is_CurrencyE)
  from heap_inv_Money [OF inv my] obtain cy
    where cy: "lookup h (field_currency my) = Some (OCurrency cy)"
      and ay: "\<not> num_lt (field_amount my) (Fin 0)"
    by (auto elim: is_CurrencyE)
  have sum: "\<not> num_lt (num_add (field_amount mx) (field_amount my)) (Fin 0)"
    using ax ay by (rule num_add_not_negative)
  have getters:
    "Money_amount h x = Inr (field_amount mx)" "Money_amount h y = Inr (field_amount my)"
    "Money_currency h x = Inr (field_currency mx)" "Money_currency h y = Inr (field_currency my)"
    "Currency_code h (field_currency mx) = Inr (field_code cx)"
    "Currency_code h (field_currency my) = Inr (field_code cy)"
    using mx my cx cy by (simp_all add: Money_amount_def Money_currency_def Currency_code_def)
  have result: "Money_add h x y =
     (if field_code cx \<noteq> field_code cy
      then (Inl (Error [Lit ''Cannot add amounts with different currencies: '',
                        Txt (field_code cx), Lit '' and '', Txt (field_code cy)]), h)
      else (Inr (length h),
            h @ [OMoney \<lparr>field_amount = num_add (field_amount mx) (field_amount my),
                         field_currency = field_currency mx\<rparr>]))"
    by (simp add: Money_add_eval [OF mx my cx cy] Money_new_ok [OF sum])
  have fresh: "lookup h (length h) = None"
    by (simp add: lookup_def)
  show ?thesis
    using getters result fresh
    by (simp add: Money_amount_def Money_currency_def lookup_append)
qed


theorem Money_add_spec_witness:
  "heap_inv [OCurrency \<lparr>field_code = js ''USD''\<rparr>,
             OMoney \<lparr>field_amount = Fin 100, field_currency = 0\<rparr>,
             OMoney \<lparr>field_amount = Fin 50, field_currency = 0\<rparr>]
   \<and> is_Money [OCurrency \<lparr>field_code = js ''USD''\<rparr>,
             OMoney \<lparr>field_amount = Fin 100, field_currency = 0\<rparr>,
             OMoney \<lparr>field_amount = Fin 50, field_currency = 0\<rparr>] 1
   \<and> is_Money [OCurrency \<lparr>field_code = js ''USD''\<rparr>,
             OMoney \<lparr>field_amount = Fin 100, field_currency = 0\<rparr>,
             OMoney \<lparr>field_amount = Fin 50, field_currency = 0\<rparr>] 2
   \<and> (\<exists>r h'. Money_add [OCurrency \<lparr>field_code = js ''USD''\<rparr>,
             OMoney \<lparr>field_amount = Fin 100, field_currency = 0\<rparr>,
             OMoney \<lparr>field_amount = Fin 50, field_currency = 0\<rparr>] 1 2 = (Inr r, h')
          \<and> Money_amount h' r = Inr (Fin 150) \<and> Money_currency h' r = Inr 0)"
proof -
  let ?h = "[OCurrency \<lparr>field_code = js ''USD''\<rparr>,
             OMoney \<lparr>field_amount = Fin 100, field_currency = 0\<rparr>,
             OMoney \<lparr>field_amount = Fin 50, field_currency = 0\<rparr>]"
  have inv: "heap_inv ?h"
    by (simp add: heap_inv_def obj_ok_def is_Currency_def lookup_def)
  have x: "is_Money ?h 1" and y: "is_Money ?h 2"
    by (simp_all add: is_Money_def lookup_def)
  from Money_add_spec [OF inv x y] obtain ax ay cx cy kx ky where
    g: "Money_amount ?h 1 = Inr ax" "Money_amount ?h 2 = Inr ay"
       "Money_currency ?h 1 = Inr cx" "Money_currency ?h 2 = Inr cy"
       "Currency_code ?h cx = Inr kx" "Currency_code ?h cy = Inr ky"
    and r: "kx = ky \<longrightarrow>
         (\<exists>r h'. Money_add ?h 1 2 = (Inr r, h') \<and> lookup ?h r = None
            \<and> Money_amount h' r = Inr (num_add ax ay) \<and> Money_currency h' r = Inr cx)"
    by blast
  from g(1-4) have v: "ax = Fin 100" "ay = Fin 50" "cx = 0" "cy = 0"
    by (simp_all add: Money_amount_def Money_currency_def lookup_def)
  with g(5,6) have "kx = ky"
    by simp
  with r v have "\<exists>r h'. Money_add ?h 1 2 = (Inr r, h')
          \<and> Money_amount h' r = Inr (Fin 150) \<and> Money_currency h' r = Inr 0"
    by (auto simp: round_double_150)
  with inv x y show ?thesis
    by blast
qed

section \<open>Money: multiplication\<close>

text \<open>
  Claim C3, at the value where the code departs from it. The claim has the factor 0 give
  a Money of amount zero for every Money value. A Money of amount Infinity passes the
  guard of the constructor, since Infinity is not below zero; times 0 the product is NaN,
  which passes the guard again, and the call returns a Money whose amount is NaN.
\<close>

theorem Money_multiply_zero_of_infinity:
  "run [] [NewCurrency (js ''USD''), NewMoney PosInf 0]
     = [OCurrency \<lparr>field_code = js ''USD''\<rparr>,
        OMoney \<lparr>field_amount = PosInf, field_currency = 0\<rparr>]
   \<and> Money_multiply [OCurrency \<lparr>field_code = js ''USD''\<rparr>,
                     OMoney \<lparr>field_amount = PosInf, field_currency = 0\<rparr>] 1 (Fin 0)
     = (Inr 2, [OCurrency \<lparr>field_code = js ''USD''\<rparr>,
                OMoney \<lparr>field_amount = PosInf, field_currency = 0\<rparr>,
                OMoney \<lparr>field_amount = NaN, field_currency = 0\<rparr>])
   \<and> Money_amount [OCurrency \<lparr>field_code = js ''USD''\<rparr>,
                OMoney \<lparr>field_amount = PosInf, field_currency = 0\<rparr>,
                OMoney \<lparr>field_amount = NaN, field_currency = 0\<rparr>] 2 \<noteq> Inr (Fin 0)"
  by (simp add: run_def Currency_new_def Money_new_def alloc_def is_Currency_def lookup_def
      Money_multiply_def attempt_def Money_amount_def Money_currency_def)

text \<open>
  An amount of Infinity is also reached from finite amounts: the largest double times 2
  overflows, and times 0 the result is the same Money of amount NaN.
\<close>

lemma Money_multiply_overflow:
  "run [] [NewCurrency (js ''USD''), NewMoney (Fin ((2 ^ 53 - 1) * 2 ^ 971)) 0,
           Multiply 1 (Fin 2), Multiply 2 (Fin 0)]
     = [OCurrency \<lparr>field_code = js ''USD''\<rparr>,
        OMoney \<lparr>field_amount = Fin ((2 ^ 53 - 1) * 2 ^ 971), field_currency = 0\<rparr>,
        OMoney \<lparr>field_amount = PosInf, field_currency = 0\<rparr>,
        OMoney \<lparr>field_amount = NaN, field_currency = 0\<rparr>]"
proof -
  have chain: "run [] [NewCurrency (js ''USD''), NewMoney (Fin m) 0,
           Multiply 1 (Fin 2), Multiply 2 (Fin 0)]
     = [OCurrency \<lparr>field_code = js ''USD''\<rparr>,
        OMoney \<lparr>field_amount = Fin m, field_currency = 0\<rparr>,
        OMoney \<lparr>field_amount = PosInf, field_currency = 0\<rparr>,
        OMoney \<lparr>field_amount = NaN, field_currency = 0\<rparr>]"
    if "0 \<le> m" and "round_double (m * 2) = PosInf" for m
    using that
    by (simp add: run_def Currency_new_def Money_new_def alloc_def is_Currency_def
        is_Money_def lookup_def Money_multiply_def attempt_def Money_amount_def
        Money_currency_def not_less)
  have big: "round_double ((2 ^ 53 - 1) * 2 ^ 971 * 2) = PosInf"
    by (simp add: round_double_def exponent_def round_half_even_def pow2_def Let_def)
  have "(0::real) \<le> (2 ^ 53 - 1) * 2 ^ 971"
    by simp
  then show ?thesis
    using big by (rule chain)
qed

text \<open>
  Everywhere else \<open>multiply\<close> does what is asked of it. Let \<open>x\<close> be a Money value of a
  store that the calls can build and \<open>f\<close> a number. Then \<open>x.multiply(f)\<close> fails exactly
  when \<open>f < 0\<close> (with the error \<open>Factor cannot be negative: \<close> followed by the factor,
  the store unchanged); otherwise it returns a new Money whose amount is the product of
  the amount of \<open>x\<close> and \<open>f\<close> and whose currency is the reference that \<open>x\<close> holds, and
  the factor 0 gives a Money of amount zero when the amount of \<open>x\<close> is finite.
\<close>

lemma Money_multiply_otherwise:
  assumes inv: "heap_inv h" and x: "is_Money h x"
  shows "\<exists>a c.
      Money_amount h x = Inr a \<and> Money_currency h x = Inr c
    \<and> (isl (fst (Money_multiply h x f)) \<longleftrightarrow> num_lt f (Fin 0))
    \<and> (num_lt f (Fin 0) \<longrightarrow>
         Money_multiply h x f = (Inl (Error [Lit ''Factor cannot be negative: '', Num f]), h))
    \<and> (\<not> num_lt f (Fin 0) \<longrightarrow>
         (\<exists>r h'. Money_multiply h x f = (Inr r, h') \<and> lookup h r = None
            \<and> Money_amount h' r = Inr (num_mul a f) \<and> Money_currency h' r = Inr c
            \<and> (f = Fin 0 \<and> isFinite a \<longrightarrow> Money_amount h' r = Inr (Fin 0))))"
proof -
  from x obtain mx where mx: "lookup h x = Some (OMoney mx)" by (rule is_MoneyE)
  from heap_inv_Money [OF inv mx] have ax: "\<not> num_lt (field_amount mx) (Fin 0)"
    by simp
  have prod: "\<not> num_lt f (Fin 0) \<Longrightarrow> \<not> num_lt (num_mul (field_amount mx) f) (Fin 0)"
    using ax by (rule num_mul_not_negative)
  have zero: "isFinite (field_amount mx) \<Longrightarrow> num_mul (field_amount mx) (Fin 0) = Fin 0"
    by (cases "field_amount mx") (auto simp: isFinite_def round_double_def)
  have getters:
    "Money_amount h x = Inr (field_amount mx)" "Money_currency h x = Inr (field_currency mx)"
    using mx by (simp_all add: Money_amount_def Money_currency_def)
  have result: "Money_multiply h x f =
     (if num_lt f (Fin 0)
      then (Inl (Error [Lit ''Factor cannot be negative: '', Num f]), h)
      else (Inr (length h),
            h @ [OMoney \<lparr>field_amount = num_mul (field_amount mx) f,
                         field_currency = field_currency mx\<rparr>]))"
    using prod by (simp add: Money_multiply_eval [OF mx] Money_new_ok)
  have fresh: "lookup h (length h) = None"
    by (simp add: lookup_def)
  show ?thesis
    using getters result fresh zero
    by (auto simp: Money_amount_def Money_currency_def lookup_append)
qed

section \<open>Money: the amount of every value\<close>

text \<open>
  Claim C8, at the values where the code departs from it. The claim has every Money hold
  an amount \<open>\<ge> 0\<close>, and the constructor says of its parameter that it must be
  non-negative. The guard it runs is \<open>amount < 0\<close>, which NaN passes though it is not
  \<open>\<ge> 0\<close>: a Money of amount NaN is constructed; and from a Money of amount Infinity,
  which is \<open>\<ge> 0\<close>, the factor 0, which is \<open>\<ge> 0\<close>, gives a Money of amount NaN.
\<close>

theorem Money_amount_NaN:
  "Money_amount (run [] [NewCurrency (js ''USD''), NewMoney NaN 0]) 1 = Inr NaN
   \<and> num_ge PosInf (Fin 0) \<and> num_ge (Fin 0) (Fin 0)
   \<and> Money_amount (run [] [NewCurrency (js ''USD''), NewMoney PosInf 0, Multiply 1 (Fin 0)]) 1
       = Inr PosInf
   \<and> Money_amount (run [] [NewCurrency (js ''USD''), NewMoney PosInf 0, Multiply 1 (Fin 0)]) 2
       = Inr NaN
   \<and> \<not> num_ge NaN (Fin 0)"
  by (simp add: run_def Currency_new_def Money_new_def alloc_def is_Currency_def
        is_Money_def lookup_def Money_multiply_def attempt_def
        Money_amount_def Money_currency_def num_ge_def)

text \<open>
  What the guard does give: in every store that a sequence of calls builds from the empty
  one, no Money has an amount below zero, and a construction with an amount below zero
  fails and leaves the store as it was.
\<close>

lemma Money_amount_not_below_zero:
  assumes "Money_amount (run [] cs) r = Inr a"
  shows "\<not> num_lt a (Fin 0) \<and> (a \<noteq> NaN \<longrightarrow> num_ge a (Fin 0))
    \<and> (num_lt b (Fin 0) \<longrightarrow> isl (fst (Money_new h b c)) \<and> snd (Money_new h b c) = h)"
proof -
  have inv: "heap_inv (run [] cs)"
    using heap_inv_empty by (rule heap_inv_run)
  from assms obtain m where m: "lookup (run [] cs) r = Some (OMoney m)" and a: "a = field_amount m"
    by (auto simp: Money_amount_def split: option.splits obj.splits)
  from heap_inv_Money(1) [OF inv m] a show ?thesis
    by (simp add: num_ge_def Money_new_def)
qed

section \<open>Money: the receiver is never changed\<close>

text \<open>
  Claim C9. \<open>x.add(y)\<close> and \<open>x.multiply(f)\<close> leave every object of the store as it
  was, the receiver \<open>x\<close> among them: its amount and its currency after the call are
  what they were before. A Money that a call returns is a new object: its address was not
  in use before the call. And the calls do return one: for Money values \<open>x\<close> and \<open>y\<close>
  of a store that the calls can build, \<open>x.add(y)\<close> returns a new Money when the two
  currency codes are equal, and \<open>x.multiply(f)\<close> returns a new Money when \<open>f \<ge> 0\<close>.
\<close>

theorem Money_operations_frame:
  "(\<forall>p v. lookup h p = Some v \<longrightarrow>
       lookup (snd (Money_add h x y)) p = Some v
     \<and> lookup (snd (Money_multiply h x f)) p = Some v)
   \<and> Money_amount (snd (Money_add h x y)) x = Money_amount h x
   \<and> Money_currency (snd (Money_add h x y)) x = Money_currency h x
   \<and> Money_amount (snd (Money_multiply h x f)) x = Money_amount h x
   \<and> Money_currency (snd (Money_multiply h x f)) x = Money_currency h x
   \<and> (\<forall>r. fst (Money_add h x y) = Inr r \<longrightarrow>
        lookup h r = None \<and> is_Money (snd (Money_add h x y)) r)
   \<and> (\<forall>r. fst (Money_multiply h x f) = Inr r \<longrightarrow>
        lookup h r = None \<and> is_Money (snd (Money_multiply h x f)) r)
   \<and> (heap_inv h \<and> is_Money h x \<and> is_Money h y
        \<and> (\<exists>cx cy k. Money_currency h x = Inr cx \<and> Money_currency h y = Inr cy
               \<and> Currency_code h cx = Inr k \<and> Currency_code h cy = Inr k) \<longrightarrow>
        (\<exists>r. fst (Money_add h x y) = Inr r \<and> lookup h r = None
           \<and> is_Money (snd (Money_add h x y)) r))
   \<and> (heap_inv h \<and> is_Money h x \<and> num_ge f (Fin 0) \<longrightarrow>
        (\<exists>r. fst (Money_multiply h x f) = Inr r \<and> lookup h r = None
           \<and> is_Money (snd (Money_multiply h x f)) r))"
proof -
  have add: "(\<forall>p v. lookup h p = Some v \<longrightarrow> lookup (snd (Money_add h x y)) p = Some v)
     \<and> Money_amount (snd (Money_add h x y)) x = Money_amount h x
     \<and> Money_currency (snd (Money_add h x y)) x = Money_currency h x
     \<and> (\<forall>r. fst (Money_add h x y) = Inr r \<longrightarrow>
          lookup h r = None \<and> is_Money (snd (Money_add h x y)) r)"
    using Money_add_shape [of h x y]
    by (auto simp: lookup_alloc_old alloc_frame lookup_length is_Money_alloc_new)
  have mul: "(\<forall>p v. lookup h p = Some v \<longrightarrow> lookup (snd (Money_multiply h x f)) p = Some v)
     \<and> Money_amount (snd (Money_multiply h x f)) x = Money_amount h x
     \<and> Money_currency (snd (Money_multiply h x f)) x = Money_currency h x
     \<and> (\<forall>r. fst (Money_multiply h x f) = Inr r \<longrightarrow>
          lookup h r = None \<and> is_Money (snd (Money_multiply h x f)) r)"
    using Money_multiply_shape [of h x f]
    by (auto simp: lookup_alloc_old alloc_frame lookup_length is_Money_alloc_new)
  have add_returns: "\<exists>r. fst (Money_add h x y) = Inr r \<and> lookup h r = None
           \<and> is_Money (snd (Money_add h x y)) r"
    if "heap_inv h" and "is_Money h x" and "is_Money h y"
      and "\<exists>cx cy k. Money_currency h x = Inr cx \<and> Money_currency h y = Inr cy
               \<and> Currency_code h cx = Inr k \<and> Currency_code h cy = Inr k"
  proof -
    from that have "fst (Money_add h x y) = Inr (length h)"
      by (auto intro: Money_add_returns)
    with add show ?thesis
      by blast
  qed
  have mul_returns: "\<exists>r. fst (Money_multiply h x f) = Inr r \<and> lookup h r = None
           \<and> is_Money (snd (Money_multiply h x f)) r"
    if "heap_inv h" and "is_Money h x" and "num_ge f (Fin 0)"
  proof -
    from that(3) have "\<not> num_lt f (Fin 0)"
      by (simp add: num_ge_def)
    with that have "fst (Money_multiply h x f) = Inr (length h)"
      by (auto intro: Money_multiply_returns)
    with mul show ?thesis
      by blast
  qed
  from add mul add_returns mul_returns show ?thesis
    by blast
qed

theorem Money_operations_frame_witness:
  "heap_inv [OCurrency \<lparr>field_code = js ''USD''\<rparr>,
             OMoney \<lparr>field_amount = Fin 100, field_currency = 0\<rparr>,
             OMoney \<lparr>field_amount = Fin 50, field_currency = 0\<rparr>]
   \<and> is_Money [OCurrency \<lparr>field_code = js ''USD''\<rparr>,
             OMoney \<lparr>field_amount = Fin 100, field_currency = 0\<rparr>,
             OMoney \<lparr>field_amount = Fin 50, field_currency = 0\<rparr>] 1
   \<and> is_Money [OCurrency \<lparr>field_code = js ''USD''\<rparr>,
             OMoney \<lparr>field_amount = Fin 100, field_currency = 0\<rparr>,
             OMoney \<lparr>field_amount = Fin 50, field_currency = 0\<rparr>] 2
   \<and> num_ge (Fin 3) (Fin 0)
   \<and> lookup [OCurrency \<lparr>field_code = js ''USD''\<rparr>,
           OMoney \<lparr>field_amount = Fin 100, field_currency = 0\<rparr>,
           OMoney \<lparr>field_amount = Fin 50, field_currency = 0\<rparr>] 1
     = Some (OMoney \<lparr>field_amount = Fin 100, field_currency = 0\<rparr>)
   \<and> lookup (snd (Money_add [OCurrency \<lparr>field_code = js ''USD''\<rparr>,
           OMoney \<lparr>field_amount = Fin 100, field_currency = 0\<rparr>,
           OMoney \<lparr>field_amount = Fin 50, field_currency = 0\<rparr>] 1 2)) 1
     = Some (OMoney \<lparr>field_amount = Fin 100, field_currency = 0\<rparr>)
   \<and> lookup (snd (Money_multiply [OCurrency \<lparr>field_code = js ''USD''\<rparr>,
           OMoney \<lparr>field_amount = Fin 100, field_currency = 0\<rparr>,
           OMoney \<lparr>field_amount = Fin 50, field_currency = 0\<rparr>] 1 (Fin 3))) 1
     = Some (OMoney \<lparr>field_amount = Fin 100, field_currency = 0\<rparr>)
   \<and> (\<exists>r. fst (Money_add [OCurrency \<lparr>field_code = js ''USD''\<rparr>,
           OMoney \<lparr>field_amount = Fin 100, field_currency = 0\<rparr>,
           OMoney \<lparr>field_amount = Fin 50, field_currency = 0\<rparr>] 1 2) = Inr r
        \<and> lookup [OCurrency \<lparr>field_code = js ''USD''\<rparr>,
           OMoney \<lparr>field_amount = Fin 100, field_currency = 0\<rparr>,
           OMoney \<lparr>field_amount = Fin 50, field_currency = 0\<rparr>] r = None
        \<and> is_Money (snd (Money_add [OCurrency \<lparr>field_code = js ''USD''\<rparr>,
           OMoney \<lparr>field_amount = Fin 100, field_currency = 0\<rparr>,
           OMoney \<lparr>field_amount = Fin 50, field_currency = 0\<rparr>] 1 2)) r)
   \<and> (\<exists>r. fst (Money_multiply [OCurrency \<lparr>field_code = js ''USD''\<rparr>,
           OMoney \<lparr>field_amount = Fin 100, field_currency = 0\<rparr>,
           OMoney \<lparr>field_amount = Fin 50, field_currency = 0\<rparr>] 1 (Fin 3)) = Inr r
        \<and> lookup [OCurrency \<lparr>field_code = js ''USD''\<rparr>,
           OMoney \<lparr>field_amount = Fin 100, field_currency = 0\<rparr>,
           OMoney \<lparr>field_amount = Fin 50, field_currency = 0\<rparr>] r = None
        \<and> is_Money (snd (Money_multiply [OCurrency \<lparr>field_code = js ''USD''\<rparr>,
           OMoney \<lparr>field_amount = Fin 100, field_currency = 0\<rparr>,
           OMoney \<lparr>field_amount = Fin 50, field_currency = 0\<rparr>] 1 (Fin 3))) r)"
proof -
  let ?h = "[OCurrency \<lparr>field_code = js ''USD''\<rparr>,
           OMoney \<lparr>field_amount = Fin 100, field_currency = 0\<rparr>,
           OMoney \<lparr>field_amount = Fin 50, field_currency = 0\<rparr>]"
  have inv: "heap_inv ?h"
    by (simp add: heap_inv_def obj_ok_def is_Currency_def lookup_def)
  have x: "is_Money ?h 1" and y: "is_Money ?h 2"
    by (simp_all add: is_Money_def lookup_def)
  have f: "num_ge (Fin 3) (Fin 0)"
    by (simp add: num_ge_def)
  have at: "lookup ?h 1 = Some (OMoney \<lparr>field_amount = Fin 100, field_currency = 0\<rparr>)"
    by (simp add: lookup_def)
  have codes: "\<exists>cx cy k. Money_currency ?h 1 = Inr cx \<and> Money_currency ?h 2 = Inr cy
               \<and> Currency_code ?h cx = Inr k \<and> Currency_code ?h cy = Inr k"
    by (simp add: Money_currency_def Currency_code_def lookup_def)
  from inv x y f at codes Money_operations_frame [of ?h 1 2 "Fin 3"] show ?thesis
    by blast
qed

section \<open>Customer: construction\<close>

text \<open>
  Claim C7. Constructing a Customer fails, with the error \<open>Name cannot be empty\<close> and
  the store unchanged, exactly when the name is empty or its trimmed form is empty, that
  is when every code unit of the name is white space. When construction succeeds the
  Customer is a new object whose \<open>lastOrderPrice\<close> is null, and it stays null through
  every sequence of calls in which \<open>lastOrderPrice\<close> of this Customer is not assigned.
\<close>

theorem Customer_new_spec:
  "(isl (fst (Customer_new h uuid name)) \<longleftrightarrow> name = [] \<or> trim name = [])
   \<and> (name = [] \<or> trim name = [] \<longleftrightarrow> (\<forall>c\<in>set name. isWhiteSpace c))
   \<and> (name = [] \<or> trim name = [] \<longrightarrow>
        Customer_new h uuid name = (Inl (Error [Lit ''Name cannot be empty'']), h))
   \<and> (\<forall>r h'. Customer_new h uuid name = (Inr r, h') \<longrightarrow>
        lookup h r = None \<and> Customer_lastOrderPrice h' r = Inr None
        \<and> (\<forall>cs. (\<forall>v. SetLastOrderPrice r v \<notin> set cs) \<longrightarrow>
              Customer_lastOrderPrice (run h' cs) r = Inr None))"
proof -
  have fails: "isl (fst (Customer_new h uuid name)) \<longleftrightarrow> name = [] \<or> trim name = []"
    by (simp add: Customer_new_def alloc_def)
  have blank: "name = [] \<or> trim name = [] \<longleftrightarrow> (\<forall>c\<in>set name. isWhiteSpace c)"
    by (auto simp: trim_Nil_iff)
  have err: "name = [] \<or> trim name = [] \<longrightarrow>
        Customer_new h uuid name = (Inl (Error [Lit ''Name cannot be empty'']), h)"
    by (simp add: Customer_new_def)
  have null: "lookup h r = None \<and> Customer_lastOrderPrice h' r = Inr None
        \<and> (\<forall>cs. (\<forall>v. SetLastOrderPrice r v \<notin> set cs) \<longrightarrow>
              Customer_lastOrderPrice (run h' cs) r = Inr None)"
    if new: "Customer_new h uuid name = (Inr r, h')" for r h'
  proof -
    let ?cu = "\<lparr>field_id = uuid, field_name = name, field_lastOrderPrice = None\<rparr>"
    from new have r: "r = length h" and h': "h' = h @ [OCustomer ?cu]"
      by (auto simp: Customer_new_def alloc_def split: if_splits)
    have at: "lookup h' r = Some (OCustomer ?cu)"
      by (simp add: r h' lookup_append)
    have "lookup (run h' cs) r = Some (OCustomer ?cu)"
      if "\<forall>v. SetLastOrderPrice r v \<notin> set cs" for cs
      using at that by (rule run_frame)
    then show ?thesis
      using at by (simp add: Customer_lastOrderPrice_def r lookup_length)
  qed
  from fails blank err null show ?thesis
    by blast
qed

theorem Customer_new_spec_witness:
  "Customer_new [] (js ''id-1'') (js ''Jane'')
     = (Inr 0, [OCustomer \<lparr>field_id = js ''id-1'', field_name = js ''Jane'',
                           field_lastOrderPrice = None\<rparr>])
   \<and> (\<forall>v. SetLastOrderPrice 0 v \<notin> set [NewCurrency (js ''USD''), NewMoney (Fin 100) 1])
   \<and> Customer_lastOrderPrice
        (run [OCustomer \<lparr>field_id = js ''id-1'', field_name = js ''Jane'',
                          field_lastOrderPrice = None\<rparr>]
             [NewCurrency (js ''USD''), NewMoney (Fin 100) 1]) 0 = Inr None
   \<and> trim (js ''  '') = []
   \<and> Customer_new [] (js ''id-2'') (js ''  '')
       = (Inl (Error [Lit ''Name cannot be empty'']), [])
   \<and> Customer_new [] (js ''id-3'') [] = (Inl (Error [Lit ''Name cannot be empty'']), [])"
proof -
  have new: "Customer_new [] (js ''id-1'') (js ''Jane'')
     = (Inr 0, [OCustomer \<lparr>field_id = js ''id-1'', field_name = js ''Jane'',
                           field_lastOrderPrice = None\<rparr>])"
    by (simp add: Customer_new_def alloc_def trim_def isWhiteSpace_def js_def)
  have calls: "\<forall>v. SetLastOrderPrice 0 v \<notin> set [NewCurrency (js ''USD''), NewMoney (Fin 100) 1]"
    by simp
  have blank: "trim (js ''  '') = []"
    by (simp add: trim_def isWhiteSpace_def js_def)
  from new calls blank
    Customer_new_spec [of "[]" "js ''id-1''" "js ''Jane''"]
    Customer_new_spec [of "[]" "js ''id-2''" "js ''  ''"]
    Customer_new_spec [of "[]" "js ''id-3''" "[]"]
  show ?thesis
    by blast
qed

section \<open>Customer: the name and the setter\<close>

text \<open>
  Claim C10. The constructor stores the name as it is given, without trimming: for every
  name whose trimmed form is not empty, construction succeeds and \<open>name\<close> of the new
  Customer returns the string given, surrounding white space included (and \<open>id\<close> returns
  the generated identifier). Assigning \<open>lastOrderPrice\<close> changes neither \<open>id\<close> nor
  \<open>name\<close> of the Customer, nor any other object; it changes \<open>lastOrderPrice\<close>.
\<close>

theorem Customer_name_and_setter:
  "(trim name \<noteq> [] \<longrightarrow>
      (\<exists>r h'. Customer_new h uuid name = (Inr r, h')
         \<and> Customer_name h' r = Inr name \<and> Customer_id h' r = Inr uuid))
   \<and> Customer_id (snd (Customer_set_lastOrderPrice h c v)) c = Customer_id h c
   \<and> Customer_name (snd (Customer_set_lastOrderPrice h c v)) c = Customer_name h c
   \<and> (\<forall>p. p \<noteq> c \<longrightarrow> lookup (snd (Customer_set_lastOrderPrice h c v)) p = lookup h p)
   \<and> (is_Customer h c \<longrightarrow>
        fst (Customer_set_lastOrderPrice h c v) = Inr ()
      \<and> Customer_lastOrderPrice (snd (Customer_set_lastOrderPrice h c v)) c = Inr (Some v))"
proof -
  have "trim [] = []"
    by (simp add: trim_def)
  then have new: "trim name \<noteq> [] \<longrightarrow>
      (\<exists>r h'. Customer_new h uuid name = (Inr r, h')
         \<and> Customer_name h' r = Inr name \<and> Customer_id h' r = Inr uuid)"
    by (auto simp: Customer_new_def alloc_def Customer_name_def Customer_id_def lookup_append)
  have set_id: "Customer_id (snd (Customer_set_lastOrderPrice h c v)) c = Customer_id h c"
    by (auto simp: Customer_set_lastOrderPrice_def Customer_id_def lookup_update
        split: option.splits obj.splits dest: lookup_SomeD)
  have set_name: "Customer_name (snd (Customer_set_lastOrderPrice h c v)) c = Customer_name h c"
    by (auto simp: Customer_set_lastOrderPrice_def Customer_name_def lookup_update
        split: option.splits obj.splits dest: lookup_SomeD)
  have others: "\<forall>p. p \<noteq> c \<longrightarrow> lookup (snd (Customer_set_lastOrderPrice h c v)) p = lookup h p"
    by (auto simp: Customer_set_lastOrderPrice_def lookup_update
        split: option.splits obj.splits)
  have sets: "is_Customer h c \<longrightarrow>
        fst (Customer_set_lastOrderPrice h c v) = Inr ()
      \<and> Customer_lastOrderPrice (snd (Customer_set_lastOrderPrice h c v)) c = Inr (Some v)"
    by (auto simp: Customer_set_lastOrderPrice_def Customer_lastOrderPrice_def is_Customer_def
        lookup_update split: option.splits obj.splits dest: lookup_SomeD)
  from new set_id set_name others sets show ?thesis
    by blast
qed


theorem Customer_name_and_setter_witness:
  "trim (js '' Jane '') \<noteq> []
   \<and> (\<exists>r h'. Customer_new [] (js ''id-1'') (js '' Jane '') = (Inr r, h')
         \<and> Customer_name h' r = Inr (js '' Jane '') \<and> Customer_id h' r = Inr (js ''id-1''))
   \<and> is_Customer [OCustomer \<lparr>field_id = js ''id-1'', field_name = js '' Jane '',
                              field_lastOrderPrice = None\<rparr>,
                   OCurrency \<lparr>field_code = js ''USD''\<rparr>,
                   OMoney \<lparr>field_amount = Fin 100, field_currency = 1\<rparr>] 0
   \<and> Customer_name (snd (Customer_set_lastOrderPrice
                  [OCustomer \<lparr>field_id = js ''id-1'', field_name = js '' Jane '',
                              field_lastOrderPrice = None\<rparr>,
                   OCurrency \<lparr>field_code = js ''USD''\<rparr>,
                   OMoney \<lparr>field_amount = Fin 100, field_currency = 1\<rparr>] 0 2)) 0
       = Inr (js '' Jane '')
   \<and> Customer_lastOrderPrice (snd (Customer_set_lastOrderPrice
                  [OCustomer \<lparr>field_id = js ''id-1'', field_name = js '' Jane '',
                              field_lastOrderPrice = None\<rparr>,
                   OCurrency \<lparr>field_code = js ''USD''\<rparr>,
                   OMoney \<lparr>field_amount = Fin 100, field_currency = 1\<rparr>] 0 2)) 0
       = Inr (Some 2)
   \<and> lookup (snd (Customer_set_lastOrderPrice
                  [OCustomer \<lparr>field_id = js ''id-1'', field_name = js '' Jane '',
                              field_lastOrderPrice = None\<rparr>,
                   OCurrency \<lparr>field_code = js ''USD''\<rparr>,
                   OMoney \<lparr>field_amount = Fin 100, field_currency = 1\<rparr>] 0 2)) 2
       = Some (OMoney \<lparr>field_amount = Fin 100, field_currency = 1\<rparr>)"
proof -
  let ?h = "[OCustomer \<lparr>field_id = js ''id-1'', field_name = js '' Jane '',
                        field_lastOrderPrice = None\<rparr>,
             OCurrency \<lparr>field_code = js ''USD''\<rparr>,
             OMoney \<lparr>field_amount = Fin 100, field_currency = 1\<rparr>]"
  have name: "trim (js '' Jane '') \<noteq> []"
    by (simp add: trim_def isWhiteSpace_def js_def)
  have cu: "is_Customer ?h 0"
    by (simp add: is_Customer_def lookup_def)
  have before: "Customer_name ?h 0 = Inr (js '' Jane '')"
      "lookup ?h 2 = Some (OMoney \<lparr>field_amount = Fin 100, field_currency = 1\<rparr>)"
    by (simp_all add: Customer_name_def lookup_def)
  have other: "(2::nat) \<noteq> 0"
    by simp
  from name cu before other
    Customer_name_and_setter [of "js '' Jane ''" "[]" "js ''id-1''" 0 2]
    Customer_name_and_setter [of "js '' Jane ''" ?h "js ''id-1''" 0 2]
  show ?thesis
    by auto
qed

section \<open>DateTime: construction\<close>

text \<open>
  Claim C5, at the value where the code departs from it. The empty string is a provided
  value, and no date parser accepts it; being falsy, it fails the test \<open>if (value)\<close>, so
  the constructor takes the branch of the omitted value: whatever the parser and the
  clock, it raises nothing and returns a DateTime of the current instant.
\<close>

theorem DateTime_new_empty_string:
  "DateTime_new parse clock (Some (StringArg [])) = Inr \<lparr>field_date = Date (Fin clock)\<rparr>"
  by (simp add: DateTime_new_def)

text \<open>
  Every other provided value, a Date or a string that is not empty, is rejected when it
  does not give a valid instant, with the message \<open>Invalid date format: \<close> followed by
  the value and a full stop.
\<close>

lemma DateTime_new_invalid:
  "truthy x \<Longrightarrow> getTime (Date_new parse x) = NaN \<Longrightarrow>
     DateTime_new parse clock (Some x) = Inl (Error [Lit ''Invalid date format: '', Val x, Lit ''.''])"
  by (simp add: DateTime_new_def isNaN_def)

text \<open>
  Claim C6. The parser of date strings rejects the empty string (it returns NaN for it,
  as \<open>Date.parse\<close> does). Then for every provided value that gives an instant strictly
  later than the reading of the clock at construction, the construction fails with the
  message \<open>Date cannot be in the future: \<close> followed by the value and a full stop; and
  when no value is provided, the construction succeeds with the current instant.
\<close>

theorem DateTime_new_future:
  assumes "parse [] = NaN"
  shows "(\<forall>x t. getTime (Date_new parse x) = Fin t \<and> clock < t \<longrightarrow>
            DateTime_new parse clock (Some x)
              = Inl (Error [Lit ''Date cannot be in the future: '', Val x, Lit ''.'']))
       \<and> DateTime_new parse clock None = Inr \<lparr>field_date = Date (Fin clock)\<rparr>"
proof -
  have future: "DateTime_new parse clock (Some x)
      = Inl (Error [Lit ''Date cannot be in the future: '', Val x, Lit ''.''])"
    if t: "getTime (Date_new parse x) = Fin t" and later: "clock < t" for x t
  proof -
    have "truthy x"
    proof (cases x)
      case (DateArg d)
      then show ?thesis by simp
    next
      case (StringArg s)
      with t assms have "s \<noteq> []"
        by auto
      with StringArg show ?thesis by simp
    qed
    with t later show ?thesis
      by (simp add: DateTime_new_def isNaN_def num_gt_def)
  qed
  have omitted: "DateTime_new parse clock None = Inr \<lparr>field_date = Date (Fin clock)\<rparr>"
    by (simp add: DateTime_new_def)
  from future omitted show ?thesis
    by blast
qed

theorem DateTime_new_future_witness:
  "(\<lambda>s. if s = js ''2999-01-01'' then Fin 32472144000000 else NaN) [] = NaN
   \<and> getTime (Date_new (\<lambda>s. if s = js ''2999-01-01'' then Fin 32472144000000 else NaN)
                (StringArg (js ''2999-01-01''))) = Fin 32472144000000
   \<and> (1700000000000::real) < 32472144000000
   \<and> DateTime_new (\<lambda>s. if s = js ''2999-01-01'' then Fin 32472144000000 else NaN)
        1700000000000 (Some (StringArg (js ''2999-01-01'')))
       = Inl (Error [Lit ''Date cannot be in the future: '',
                     Val (StringArg (js ''2999-01-01'')), Lit ''.''])
   \<and> DateTime_new (\<lambda>s. if s = js ''2999-01-01'' then Fin 32472144000000 else NaN)
        1700000000000 None = Inr \<lparr>field_date = Date (Fin 1700000000000)\<rparr>"
proof -
  let ?parse = "\<lambda>s. if s = js ''2999-01-01'' then Fin 32472144000000 else NaN"
  have empty: "?parse [] = NaN"
    by (simp add: js_def)
  have t: "getTime (Date_new ?parse (StringArg (js ''2999-01-01''))) = Fin 32472144000000"
    by simp
  have later: "(1700000000000::real) < 32472144000000"
    by simp
  from empty t later DateTime_new_future [of ?parse 1700000000000] show ?thesis
    by blast
qed


end
